theory Spec2Isabelle
  imports Complex_Main "HOL-Library.Word" "HOL-Library.Sublist"
begin

section \<open>JavaScript strings\<close>

text \<open>
  A JavaScript string is a sequence of UTF-16 code units. ASCII literals of the source are
  written with \<open>js\<close>; the few non-ASCII literals are given by their code units.
\<close>

type_synonym jschar = "16 word"
type_synonym jsstring = "jschar list"

definition js :: "string \<Rightarrow> jsstring" where
  "js s = map of_char s"

definition nl :: jsstring where
  "nl = [0x000A]"

text \<open>
  Truthiness of a string value (\<open>if (s)\<close>, \<open>!s\<close>, \<open>s || d\<close>): only the empty
  string is falsy. An optional string (\<open>undefined\<close> is \<open>None\<close>) is falsy when it is
  undefined or empty; the definitions below write that case distinction out.
\<close>

definition truthy :: "jsstring \<Rightarrow> bool" where
  "truthy s = (s \<noteq> [])"

text \<open>
  \<open>String.prototype.trim\<close> removes the leading and trailing code units that are
  WhiteSpace or LineTerminator in ECMAScript: TAB, LF, VT, FF, CR, SP, NBSP, U+1680,
  U+2000 to U+200A, LS, PS, U+202F, U+205F, U+3000 and U+FEFF.
\<close>

definition isWhiteSpace :: "jschar \<Rightarrow> bool" where
  "isWhiteSpace c =
     (c = 0x0009 \<or> c = 0x000A \<or> c = 0x000B \<or> c = 0x000C \<or> c = 0x000D \<or> c = 0x0020 \<or>
      c = 0x00A0 \<or> c = 0x1680 \<or> (0x2000 \<le> c \<and> c \<le> 0x200A) \<or> c = 0x2028 \<or>
      c = 0x2029 \<or> c = 0x202F \<or> c = 0x205F \<or> c = 0x3000 \<or> c = 0xFEFF)"

definition trimStart :: "jsstring \<Rightarrow> jsstring" where
  "trimStart s = dropWhile isWhiteSpace s"

definition trimEnd :: "jsstring \<Rightarrow> jsstring" where
  "trimEnd s = rev (dropWhile isWhiteSpace (rev s))"

definition trim :: "jsstring \<Rightarrow> jsstring" where
  "trim s = trimEnd (trimStart s)"

text \<open>
  The decimal rendering of a non-negative integer, as a template literal produces it for
  \<open>${index + 1}\<close>.
\<close>

definition digit :: "nat \<Rightarrow> jschar" where
  "digit d = 0x0030 + of_nat d"

fun numberToString :: "nat \<Rightarrow> jsstring" where
  "numberToString n =
     (if n < 10 then [digit n] else numberToString (n div 10) @ [digit (n mod 10)])"

declare numberToString.simps [simp del]

section \<open>types.ts\<close>

datatype Language = En | Zh

datatype GradingStatus = Idle | Processing | Success | Error | Improving

text \<open>
  \<open>FileWithPreview\<close>. The field \<open>file\<close> of the source holds the browser's \<open>File\<close>
  object, which the grading code never reads; it is represented by its name, in
  \<open>fileObject\<close>. \<open>base64\<close> is the optional field \<open>base64?: string\<close>.
\<close>

record FileWithPreview =
  fileObject :: jsstring
  previewUrl :: jsstring
  base64 :: "jsstring option"
  mimeType :: jsstring

section \<open>services/geminiService.ts: composing the grading request\<close>

datatype part = Text jsstring | InlineData jsstring jsstring

definition langInstruction :: "Language \<Rightarrow> jsstring" where
  "langInstruction language =
     (if language = Zh
      then js ''IMPORTANT: Provide ALL text fields (summary, feedback, studentAnswer, correction, comments, rubricReference) in Simplified Chinese ('' @
           [0x7B80, 0x4F53, 0x4E2D, 0x6587] @ js '').''
      else js ''IMPORTANT: Provide all text fields in English.'')"

definition promptHead :: jsstring where
  \<open>promptHead =
     nl @
     js ''    You are an expert academic grader for K-12 education. '' @
     nl @
     js ''    Your task is to grade a student's exam paper based on the provided answer key (rubric) and optional instructions.'' @
     nl @
     js ''    '' @
     nl @
     js ''    ''\<close>

definition promptTail :: jsstring where
  \<open>promptTail =
     nl @
     nl @
     js ''    Instructions:'' @
     nl @
     js ''    1. Analyze the 'Rubric/Answer Key' images to understand the correct answers and point distribution.'' @
     nl @
     js ''    2. Analyze the 'Student Exam' images. '' @
     nl @
     js ''    3. Grade each question carefully. Partial credit is allowed if the rubric implies it or if the student shows partial understanding (unless strict grading is requested).'' @
     nl @
     js ''    4. For every question, you MUST quote the specific part of the rubric/answer key that explains why you gave that score in the 'rubricReference' field.'' @
     nl @
     js ''    5. Be fair, consistent, and constructive.'' @
     nl @
     js ''    6. If the student's handwriting is illegible, mark it as 0 and note it in comments.'' @
     nl @
     js ''    7. Return the result in the specified JSON format.'' @
     nl @
     js ''  ''\<close>

text \<open>The instruction text: the template, then the two conditional appends.\<close>

definition promptText :: "jsstring \<Rightarrow> Language \<Rightarrow> jsstring" where
  "promptText instructions language =
     (let promptText0 = promptHead @ langInstruction language @ promptTail;
          promptText1 =
            (if truthy (trim instructions)
             then promptText0 @ nl @ nl @ js ''Additional Teacher Instructions: '' @ instructions
             else promptText0)
      in promptText1 @ nl @ nl @
         js ''Below are the images. First, the Answer Key/Rubric, then the Student Exam.'')"

definition rubricLabel :: "nat \<Rightarrow> jsstring" where
  "rubricLabel index = js ''[Image: Rubric Page '' @ numberToString (index + 1) @ js '']''"

definition examLabel :: "nat \<Rightarrow> jsstring" where
  "examLabel index = js ''[Image: Student Exam Page '' @ numberToString (index + 1) @ js '']''"

text \<open>
  \<open>files.forEach((f, index) => { if (f.base64) { parts.push(label); parts.push(image) } })\<close>:
  the loop over the files with its running index and the array \<open>parts\<close> it grows.
\<close>

fun pushImages :: "(nat \<Rightarrow> jsstring) \<Rightarrow> part list \<Rightarrow> nat \<Rightarrow> FileWithPreview list \<Rightarrow> part list" where
  "pushImages label parts index [] = parts"
| "pushImages label parts index (f # fs) =
     pushImages label
       (case base64 f of
          None \<Rightarrow> parts
        | Some d \<Rightarrow>
            if truthy d then (parts @ [Text (label index)]) @ [InlineData (mimeType f) d]
            else parts)
       (index + 1) fs"

definition composeParts ::
  "FileWithPreview list \<Rightarrow> FileWithPreview list \<Rightarrow> jsstring \<Rightarrow> Language \<Rightarrow> part list" where
  "composeParts examFiles rubricFiles instructions language =
     (let parts0 = [] @ [Text (promptText instructions language)];
          parts1 = pushImages rubricLabel parts0 0 rubricFiles;
          parts2 = pushImages examLabel parts1 0 examFiles
      in parts2)"


section \<open>services/geminiService.ts: the response schema\<close>

datatype Type = STRING | NUMBER | BOOLEAN | ARRAY | OBJECT

text \<open>
  A \<open>Schema\<close> object of the client library, with the fields the source sets:
  \<open>type\<close>, \<open>description\<close>, \<open>properties\<close>, \<open>items\<close>, \<open>required\<close>.
\<close>

datatype Schema =
  Schema Type "jsstring option" "(jsstring \<times> Schema) list" "Schema option" "jsstring list"

definition prim :: "Type \<Rightarrow> string \<Rightarrow> Schema" where
  "prim t description = Schema t (Some (js description)) [] None []"

definition questionSchema :: Schema where
  \<open>questionSchema =
     Schema OBJECT None
       [(js ''questionId'', prim STRING ''Question number or label (e.g., '1', '2a')''),
        (js ''score'', prim NUMBER ''Points earned for this question''),
        (js ''maxScore'', prim NUMBER ''Max points for this question''),
        (js ''isCorrect'', Schema BOOLEAN None [] None []),
        (js ''studentAnswer'', prim STRING ''Brief text description of the student's answer''),
        (js ''correction'', prim STRING ''The correct answer and explanation if wrong''),
        (js ''rubricReference'', prim STRING ''Quote the specific text from the rubric/answer key image that justifies this score.''),
        (js ''comments'', prim STRING ''Specific comments on this question'')]
       None
       [js ''questionId'', js ''score'', js ''maxScore'', js ''isCorrect'', js ''studentAnswer'',
        js ''correction'', js ''comments'']\<close>

definition gradingSchema :: Schema where
  \<open>gradingSchema =
     Schema OBJECT None
       [(js ''studentName'', prim STRING (''Inferred name of the student if visible, else 'Student'' @ [CHR 0x27])),
        (js ''totalScore'', prim NUMBER ''Total points earned''),
        (js ''maxScore'', prim NUMBER ''Total possible points''),
        (js ''letterGrade'', prim STRING ''Letter grade (A, B, C, etc.)''),
        (js ''summary'', prim STRING ''A brief summary of performance''),
        (js ''constructiveFeedback'', prim STRING ''Encouraging feedback for the student''),
        (js ''questions'', Schema ARRAY None [] (Some questionSchema) [])]
       None
       [js ''totalScore'', js ''maxScore'', js ''letterGrade'', js ''summary'', js ''questions'',
        js ''constructiveFeedback'']\<close>

section \<open>services/geminiService.ts: the two model calls\<close>

text \<open>
  A value as \<open>JSON.parse\<close> returns it. The cast \<open>as GradingResult\<close> of the source is
  erased at run time, so what \<open>gradeExam\<close> returns is such a value, whatever its shape.
  Numbers are carried as rationals; the code never computes with them.
\<close>

datatype json =
    JNull
  | JBool bool
  | JNumber rat
  | JString jsstring
  | JArray "json list"
  | JObject "(jsstring \<times> json) list"

text \<open>
  The shape the schema declares, in the words of the specification: a value has the shape of
  a schema when it has the declared type, an array's elements have the shape of \<open>items\<close>,
  and an object has every \<open>required\<close> property and each declared property it has is of
  the declared shape. This predicate is not part of the source, which never evaluates the
  schema; it is what the source is compared with.
\<close>

fun spec_conforms :: "Schema \<Rightarrow> json \<Rightarrow> bool" where
  "spec_conforms (Schema STRING d ps it req) v = (case v of JString s \<Rightarrow> True | _ \<Rightarrow> False)"
| "spec_conforms (Schema NUMBER d ps it req) v = (case v of JNumber n \<Rightarrow> True | _ \<Rightarrow> False)"
| "spec_conforms (Schema BOOLEAN d ps it req) v = (case v of JBool b \<Rightarrow> True | _ \<Rightarrow> False)"
| "spec_conforms (Schema ARRAY d ps it req) v =
     (case v of
        JArray xs \<Rightarrow> (case it of None \<Rightarrow> True | Some sch \<Rightarrow> list_all (spec_conforms sch) xs)
      | _ \<Rightarrow> False)"
| "spec_conforms (Schema OBJECT d ps it req) v =
     (case v of
        JObject kvs \<Rightarrow>
          list_all (\<lambda>k. map_of kvs k \<noteq> None) req \<and>
          list_all (\<lambda>(k, sch). case map_of kvs k of None \<Rightarrow> True | Some x \<Rightarrow> spec_conforms sch x)
            ps
      | _ \<Rightarrow> False)"

record GenerationConfig =
  responseMimeType :: jsstring
  responseSchema :: Schema
  temperature :: rat

datatype contents = Parts "part list" | Plain jsstring

record GenerateContentParameters =
  model :: jsstring
  contents :: contents
  config :: "GenerationConfig option"

text \<open>The response of the model; \<open>responseText\<close> is its property \<open>text\<close>.\<close>

record GenerateContentResponse =
  responseText :: "jsstring option"

text \<open>
  What the two functions throw: the value thrown by \<open>ai.models.generateContent\<close> (with its
  \<open>message\<close>, if it has one), \<open>new Error("No response text generated")\<close>, and the
  \<open>SyntaxError\<close> of \<open>JSON.parse\<close>.
\<close>

datatype error =
    ProviderError "jsstring option"
  | NoResponseText
  | SyntaxError jsstring

fun message :: "error \<Rightarrow> jsstring option" where
  "message (ProviderError m) = m"
| "message NoResponseText = Some (js ''No response text generated'')"
| "message (SyntaxError m) = Some m"

text \<open>
  The platform the code runs on: the model behind \<open>ai.models.generateContent\<close>, which
  answers a request or throws, and \<open>JSON.parse\<close>, which returns a value or throws a
  \<open>SyntaxError\<close>. Both are parameters of the functions below.
\<close>

record env =
  generateContent :: "GenerateContentParameters \<Rightarrow> jsstring option + GenerateContentResponse"
  JSON_parse :: "jsstring \<Rightarrow> jsstring + json"

definition gradeRequest ::
  "FileWithPreview list \<Rightarrow> FileWithPreview list \<Rightarrow> jsstring \<Rightarrow> Language \<Rightarrow>
   GenerateContentParameters" where
  "gradeRequest examFiles rubricFiles instructions language =
     \<lparr>model = js ''gemini-2.5-flash'',
      contents = Parts (composeParts examFiles rubricFiles instructions language),
      config = Some \<lparr>responseMimeType = js ''application/json'',
                     responseSchema = gradingSchema,
                     temperature = 2 / 10\<rparr>\<rparr>"

text \<open>
  \<open>gradeExam\<close> returns its result (the parsed value, or what it throws) together with
  the list of requests it sent to the model.
\<close>

definition gradeExam ::
  "env \<Rightarrow> FileWithPreview list \<Rightarrow> FileWithPreview list \<Rightarrow> jsstring \<Rightarrow> Language \<Rightarrow>
   (error + json) \<times> GenerateContentParameters list" where
  "gradeExam e examFiles rubricFiles instructions language =
     (let request = gradeRequest examFiles rubricFiles instructions language
      in ((case generateContent e request of
             Inl m \<Rightarrow> Inl (ProviderError m)
           | Inr response \<Rightarrow>
               (case responseText response of
                  None \<Rightarrow> Inl NoResponseText
                | Some t \<Rightarrow>
                    if truthy t
                    then (case JSON_parse e t of
                            Inl m \<Rightarrow> Inl (SyntaxError m)
                          | Inr data \<Rightarrow> Inr data)
                    else Inl NoResponseText)),
          [request]))"

definition improveHead :: jsstring where
  \<open>improveHead =
     nl @
     js ''    You are a helpful assistant for a teacher.'' @
     nl @
     js ''    The teacher is providing feedback on how an exam was graded to improve future grading consistency.'' @
     nl @
     js ''    '' @
     nl @
     js ''    Current Instructions: "''\<close>

definition improveMid :: jsstring where
  \<open>improveMid =
     js ''"'' @
     nl @
     js ''    '' @
     nl @
     js ''    Teacher's Complaint/Feedback: "''\<close>

definition improveTail :: jsstring where
  \<open>improveTail =
     js ''"'' @
     nl @
     js ''    '' @
     nl @
     js ''    Task:'' @
     nl @
     js ''    Based on the teacher's feedback, formulate a clear, concise, and specific instruction rule that should be added to the grading instructions.'' @
     nl @
     js ''    This new rule should ensure that the AI grader accounts for the specific issue mentioned by the teacher (e.g., deducting points for missing keywords, checking for specific concepts like 'regeneration' or 'Gankeng Ancient Town').'' @
     nl @
     js ''    '' @
     nl @
     js ''    Output Format:'' @
     nl @
     js ''    Return ONLY the text of the new instruction rule. Do not include conversational text.'' @
     nl @
     js ''    If the language is Chinese, return the rule in Chinese.'' @
     nl @
     js ''  ''\<close>

definition improveRequest :: "jsstring \<Rightarrow> jsstring \<Rightarrow> Language \<Rightarrow> GenerateContentParameters" where
  "improveRequest currentInstructions teacherFeedback language =
     \<lparr>model = js ''gemini-2.5-flash'',
      contents = Plain (improveHead @ currentInstructions @ improveMid @ teacherFeedback @
                        improveTail),
      config = None\<rparr>"

text \<open>\<open>return response.text?.trim() || ""\<close>\<close>

definition generateImprovedInstructions ::
  "env \<Rightarrow> jsstring \<Rightarrow> jsstring \<Rightarrow> Language \<Rightarrow>
   (error + jsstring) \<times> GenerateContentParameters list" where
  "generateImprovedInstructions e currentInstructions teacherFeedback language =
     (let request = improveRequest currentInstructions teacherFeedback language
      in ((case generateContent e request of
             Inl m \<Rightarrow> Inl (ProviderError m)
           | Inr response \<Rightarrow>
               Inr (case responseText response of
                      None \<Rightarrow> []
                    | Some t \<Rightarrow> if truthy (trim t) then trim t else [])),
          [request]))"

section \<open>App.tsx: the session and its handlers\<close>

text \<open>The entry \<open>errorFiles\<close> of the table \<open>translations\<close>, the one the handlers read.\<close>

definition errorFiles :: "Language \<Rightarrow> jsstring" where
  "errorFiles l =
     (case l of
        En \<Rightarrow> js ''Please upload at least one exam image and one rubric/key image.''
      | Zh \<Rightarrow> [0x8BF7, 0x81F3, 0x5C11, 0x4E0A, 0x4F20, 0x4E00, 0x5F20, 0x8BD5, 0x5377, 0x56FE,
           0x7247, 0x548C, 0x4E00, 0x5F20, 0x7B54, 0x6848, 0x56FE, 0x7247, 0x3002])"

text \<open>
  The state variables of the component \<open>App\<close>, with their initial values. \<open>result\<close>
  and \<open>errorMessage\<close> are \<open>null\<close> (\<open>None\<close>) or a value; a parsed body that is the
  JSON \<open>null\<close> is stored as that same \<open>null\<close>.
\<close>

record Session =
  language :: Language
  examFiles :: "FileWithPreview list"
  rubricFiles :: "FileWithPreview list"
  instructions :: jsstring
  status :: GradingStatus
  result :: "json option"
  errorMessage :: "jsstring option"

fun nullable :: "json \<Rightarrow> json option" where
  "nullable JNull = None"
| "nullable v = Some v"

definition initialSession :: Session where
  "initialSession =
     \<lparr>language = Zh, examFiles = [], rubricFiles = [], instructions = [], status = Idle,
      result = None, errorMessage = None\<rparr>"

text \<open>
  \<open>error.message || "An unexpected error occurred during grading."\<close>
\<close>

definition messageOr :: "error \<Rightarrow> jsstring" where
  "messageOr err =
     (case message err of
        None \<Rightarrow> js ''An unexpected error occurred during grading.''
      | Some m \<Rightarrow> if truthy m then m else js ''An unexpected error occurred during grading.'')"

text \<open>
  The two handlers that call the model are \<open>async\<close>. Each is modelled in three parts:
  what runs before the \<open>await\<close> (\<open>Begin\<close>: either the early return of the guard, or the
  session as it stands while the call is pending), what runs once the awaited call has
  settled (\<open>Settled\<close>: \<open>r\<close> is what the call returned or threw), and the whole handler,
  which returns the session it leaves together with the requests it sent to the model.
\<close>

definition gradeBegin :: "Session \<Rightarrow> Session + Session" where
  "gradeBegin s =
     (if examFiles s = [] \<or> rubricFiles s = []
      then Inl (s\<lparr>errorMessage := Some (errorFiles (language s))\<rparr>)
      else Inr (s\<lparr>status := Processing, errorMessage := None\<rparr>))"

definition gradeSettled :: "Session \<Rightarrow> error + json \<Rightarrow> Session" where
  "gradeSettled s r =
     (case r of
        Inr gradingResult \<Rightarrow> s\<lparr>result := nullable gradingResult, status := Success\<rparr>
      | Inl err \<Rightarrow> s\<lparr>status := Error, errorMessage := Some (messageOr err)\<rparr>)"

definition handleGrade :: "env \<Rightarrow> Session \<Rightarrow> Session \<times> GenerateContentParameters list" where
  "handleGrade e s =
     (case gradeBegin s of
        Inl s' \<Rightarrow> (s', [])
      | Inr s1 \<Rightarrow>
          let (r, calls) = gradeExam e (examFiles s) (rubricFiles s) (instructions s) (language s)
          in (gradeSettled s1 r, calls))"

definition improveBegin :: "Session \<Rightarrow> jsstring \<Rightarrow> Session + Session" where
  "improveBegin s feedback =
     (if \<not> truthy feedback then Inl s else Inr (s\<lparr>status := Improving\<rparr>))"

definition improveSettled :: "Session \<Rightarrow> error + jsstring \<Rightarrow> Session" where
  "improveSettled s r =
     (case r of
        Inr newRule \<Rightarrow>
          if truthy newRule
          then s\<lparr>instructions :=
                   (let prev = instructions s;
                        prefix = (if truthy prev then prev @ nl @ nl else [])
                    in prefix @ js ''[Updated Rule]: '' @ newRule),
                 result := None, status := Idle\<rparr>
          else s\<lparr>status := Success\<rparr>
      | Inl err \<Rightarrow> s\<lparr>status := Success\<rparr>)"

definition handleImproveInstructions ::
  "env \<Rightarrow> Session \<Rightarrow> jsstring \<Rightarrow> Session \<times> GenerateContentParameters list" where
  "handleImproveInstructions e s feedback =
     (case improveBegin s feedback of
        Inl s' \<Rightarrow> (s', [])
      | Inr s1 \<Rightarrow>
          let (r, calls) =
                generateImprovedInstructions e (instructions s) feedback (language s)
          in (improveSettled s1 r, calls))"

section \<open>Notions used to state the properties\<close>

text \<open>
  What one file of a group contributes to the request, given its position in the group:
  nothing when it has no payload, else its page label followed by its image.
\<close>

definition pageSegments :: "(nat \<Rightarrow> jsstring) \<Rightarrow> nat \<times> FileWithPreview \<Rightarrow> part list" where
  "pageSegments label p =
     (case base64 (snd p) of
        None \<Rightarrow> []
      | Some d \<Rightarrow>
          if d = [] then [] else [Text (label (fst p)), InlineData (mimeType (snd p)) d])"

text \<open>The image segment of a file that has a payload.\<close>

definition imageOf :: "FileWithPreview \<Rightarrow> part option" where
  "imageOf f =
     (case base64 f of
        None \<Rightarrow> None
      | Some d \<Rightarrow> if d = [] then None else Some (InlineData (mimeType f) d))"

text \<open>The image segments of a group, in the order of the input sequence.\<close>

definition imagesOf :: "FileWithPreview list \<Rightarrow> part list" where
  "imagesOf fs = List.map_filter imageOf fs"

text \<open>The positions (counted from \<open>i\<close>) of the files of a group that have a payload.\<close>

definition pagesFrom :: "nat \<Rightarrow> FileWithPreview list \<Rightarrow> nat list" where
  "pagesFrom i fs = map fst (filter (\<lambda>p. imageOf (snd p) \<noteq> None) (enumerate i fs))"

fun isImage :: "part \<Rightarrow> bool" where
  "isImage (InlineData t d) = True"
| "isImage (Text m) = False"

section \<open>Sample inputs\<close>

definition page :: "string \<Rightarrow> string option \<Rightarrow> FileWithPreview" where
  "page name payload =
     \<lparr>fileObject = js name, previewUrl = js ''blob:'' @ js name, base64 = map_option js payload,
      mimeType = js ''image/png''\<rparr>"

text \<open>
  A platform whose model call throws a value with message \<open>m\<close> (\<open>Inl m\<close>) or answers
  with the text \<open>t\<close> (\<open>Inr t\<close>), and whose \<open>JSON.parse\<close> is given by a table of bodies
  and their values, every other body being a syntax error.
\<close>

definition sampleEnv :: "jsstring option + jsstring option \<Rightarrow> (jsstring \<times> json) list \<Rightarrow> env" where
  "sampleEnv outcome table =
     \<lparr>generateContent =
        (\<lambda>request. case outcome of Inl m \<Rightarrow> Inl m | Inr t \<Rightarrow> Inr \<lparr>responseText = t\<rparr>),
      JSON_parse =
        (\<lambda>body. case map_of table body of
                  None \<Rightarrow> Inl (js ''Unexpected token'')
                | Some v \<Rightarrow> Inr v)\<rparr>"

text \<open>The response body of the scenario of the specification, and the value it denotes.\<close>

definition scenarioBody :: jsstring where
  \<open>scenarioBody =
     js ''{"totalScore":8,"maxScore":10,"letterGrade":"B","summary":"Good work",'' @
     js ''"constructiveFeedback":"Review part 2","questions":[{"questionId":"1","score":8,'' @
     js ''"maxScore":10,"isCorrect":false,"studentAnswer":"...","correction":"...",'' @
     js ''"comments":"..."}]}''\<close>

definition scenarioResult :: json where
  "scenarioResult =
     JObject
       [(js ''totalScore'', JNumber 8), (js ''maxScore'', JNumber 10),
        (js ''letterGrade'', JString (js ''B'')), (js ''summary'', JString (js ''Good work'')),
        (js ''constructiveFeedback'', JString (js ''Review part 2'')),
        (js ''questions'',
         JArray
           [JObject
              [(js ''questionId'', JString (js ''1'')), (js ''score'', JNumber 8),
               (js ''maxScore'', JNumber 10), (js ''isCorrect'', JBool False),
               (js ''studentAnswer'', JString (js ''...'')),
               (js ''correction'', JString (js ''...'')),
               (js ''comments'', JString (js ''...''))]])]"

text \<open>A response text of white space only: an ideographic space, a space, a line feed.\<close>

definition blankText :: jsstring where
  "blankText = [0x3000, 0x0020, 0x000A]"

definition sampleSession :: Session where
  "sampleSession =
     \<lparr>language = Zh, examFiles = [page ''exam1.png'' (Some ''RVhBTQ=='')],
      rubricFiles = [page ''key1.png'' (Some ''S0VZ'')], instructions = js ''Be strict on grammar.'',
      status = Success, result = Some scenarioResult, errorMessage = None\<rparr>"

section \<open>Auxiliary facts\<close>

subsection \<open>The loop over a group of files\<close>

lemma pushImages_concat:
  "pushImages label parts i fs = parts @ concat (map (pageSegments label) (enumerate i fs))"
  by (induction fs arbitrary: parts i)
     (auto simp: pageSegments_def truthy_def split: option.splits)

lemma composeParts_segments:
  "composeParts ex ru ins lang =
     Text (promptText ins lang) # concat (map (pageSegments rubricLabel) (enumerate 0 ru)) @
       concat (map (pageSegments examLabel) (enumerate 0 ex))"
  by (simp add: composeParts_def pushImages_concat)

lemma segments_splice:
  "concat (map (pageSegments label) (enumerate i fs)) =
   splice (map (\<lambda>k. Text (label k)) (pagesFrom i fs)) (imagesOf fs)"
  by (induction fs arbitrary: i)
     (auto simp: pageSegments_def pagesFrom_def imagesOf_def imageOf_def split: option.splits)

lemma length_pagesFrom: "length (pagesFrom i fs) = length (imagesOf fs)"
  by (induction fs arbitrary: i)
     (auto simp: pagesFrom_def imagesOf_def split: option.splits)

lemma filter_isImage_segments:
  "filter isImage (concat (map (pageSegments label) (enumerate i fs))) = imagesOf fs"
  by (induction fs arbitrary: i)
     (auto simp: pageSegments_def imagesOf_def imageOf_def split: option.splits)

lemma numberToString_digit: "n < 10 \<Longrightarrow> numberToString n = [digit n]"
  by (simp add: numberToString.simps)

subsection \<open>The instruction text\<close>

lemma promptText_split:
  "\<exists>ps ss. promptText ins lang = ps @ langInstruction lang @ ss"
proof (cases "truthy (trim ins)")
  case True
  then have "promptText ins lang =
      promptHead @ langInstruction lang @
        (promptTail @ nl @ nl @ js ''Additional Teacher Instructions: '' @ ins @ nl @ nl @
         js ''Below are the images. First, the Answer Key/Rubric, then the Student Exam.'')"
    by (simp add: promptText_def)
  then show ?thesis by blast
next
  case False
  then have "promptText ins lang =
      promptHead @ langInstruction lang @
        (promptTail @ nl @ nl @
         js ''Below are the images. First, the Answer Key/Rubric, then the Student Exam.'')"
    by (simp add: promptText_def)
  then show ?thesis by blast
qed

lemma langInstruction_Zh:
  "langInstruction Zh =
     js ''IMPORTANT: Provide ALL text fields (summary, feedback, studentAnswer, correction, comments, rubricReference) in Simplified Chinese ('' @
     [0x7B80, 0x4F53, 0x4E2D, 0x6587] @ js '').''"
  by (simp add: langInstruction_def)

subsection \<open>Trimming\<close>

lemma trim_decomp:
  "\<exists>pre post. t = pre @ trim t @ post \<and> list_all isWhiteSpace pre \<and> list_all isWhiteSpace post"
proof -
  define u where "u = dropWhile isWhiteSpace t"
  define pre where "pre = takeWhile isWhiteSpace t"
  define post where "post = rev (takeWhile isWhiteSpace (rev u))"
  have t: "t = pre @ u"
    by (simp add: pre_def u_def)
  have "u = rev (dropWhile isWhiteSpace (rev u)) @ rev (takeWhile isWhiteSpace (rev u))"
    by (metis rev_append rev_rev_ident takeWhile_dropWhile_id)
  then have u: "u = trim t @ post"
    by (simp add: trim_def trimEnd_def trimStart_def post_def u_def)
  have "list_all isWhiteSpace pre"
    by (simp add: pre_def list_all_iff) (meson set_takeWhileD)
  moreover have "list_all isWhiteSpace post"
    by (simp add: post_def list_all_iff) (meson set_takeWhileD)
  ultimately show ?thesis
    using t u by auto
qed

lemma trim_last: "trim t \<noteq> [] \<Longrightarrow> \<not> isWhiteSpace (last (trim t))"
  by (simp add: trim_def trimEnd_def last_rev hd_dropWhile)

lemma trim_hd:
  assumes "trim t \<noteq> []"
  shows "\<not> isWhiteSpace (hd (trim t))"
proof -
  let ?u = "dropWhile isWhiteSpace t"
  obtain post where u: "?u = trim t @ post"
    by (metis append_take_drop_id dropWhile_eq_drop rev_append rev_rev_ident trimEnd_def
        trimStart_def trim_def)
  with assms have "?u \<noteq> []" by auto
  then have "\<not> isWhiteSpace (hd ?u)" by (rule hd_dropWhile)
  with u assms show ?thesis by simp
qed

lemma trim_blank:
  assumes "list_all isWhiteSpace t"
  shows "trim t = []"
proof -
  from assms have "dropWhile isWhiteSpace t = []"
    by (simp add: list_all_iff)
  then have "trimStart t = []"
    by (simp only: trimStart_def)
  then show ?thesis
    by (simp add: trim_def trimEnd_def)
qed

subsection \<open>The two calls and the handlers, unfolded\<close>

lemma gradeExam_result:
  "fst (gradeExam e ex ru ins lang) =
     (case generateContent e (gradeRequest ex ru ins lang) of
        Inl m \<Rightarrow> Inl (ProviderError m)
      | Inr r \<Rightarrow>
          (case responseText r of
             None \<Rightarrow> Inl NoResponseText
           | Some t \<Rightarrow>
               if t = [] then Inl NoResponseText
               else (case JSON_parse e t of Inl m \<Rightarrow> Inl (SyntaxError m) | Inr v \<Rightarrow> Inr v)))"
  by (simp add: gradeExam_def truthy_def split: sum.splits option.splits)

lemma gradeExam_calls: "snd (gradeExam e ex ru ins lang) = [gradeRequest ex ru ins lang]"
  by (simp add: gradeExam_def Let_def)

lemma improve_result:
  "fst (generateImprovedInstructions e cur fb lang) =
     (case generateContent e (improveRequest cur fb lang) of
        Inl m \<Rightarrow> Inl (ProviderError m)
      | Inr r \<Rightarrow> Inr (case responseText r of None \<Rightarrow> [] | Some t \<Rightarrow> trim t))"
  by (simp add: generateImprovedInstructions_def truthy_def split: sum.splits option.splits)

lemma improve_calls:
  "snd (generateImprovedInstructions e cur fb lang) = [improveRequest cur fb lang]"
  by (simp add: generateImprovedInstructions_def Let_def)

lemma handleImproveInstructions_parts:
  "feedback \<noteq> [] \<Longrightarrow>
   handleImproveInstructions e s feedback =
     (improveSettled (s\<lparr>status := Improving\<rparr>)
        (fst (generateImprovedInstructions e (instructions s) feedback (language s))),
      [improveRequest (instructions s) feedback (language s)])"
  by (simp add: handleImproveInstructions_def improveBegin_def truthy_def split_def Let_def
        improve_calls)

lemma handleGrade_parts:
  "examFiles s \<noteq> [] \<Longrightarrow> rubricFiles s \<noteq> [] \<Longrightarrow>
   handleGrade e s =
     (gradeSettled (s\<lparr>status := Processing, errorMessage := None\<rparr>)
        (fst (gradeExam e (examFiles s) (rubricFiles s) (instructions s) (language s))),
      [gradeRequest (examFiles s) (rubricFiles s) (instructions s) (language s)])"
  by (simp add: handleGrade_def gradeBegin_def split_def Let_def gradeExam_calls)

text \<open>
  The handlers end to end: a session with both image groups, a model that answers with a
  body \<open>JSON.parse\<close> accepts.
\<close>

lemma handleGrade_success:
  assumes "examFiles s \<noteq> []" and "rubricFiles s \<noteq> []"
    and "generateContent e
           (gradeRequest (examFiles s) (rubricFiles s) (instructions s) (language s)) = Inr r"
    and "responseText r = Some body" and "body \<noteq> []" and "JSON_parse e body = Inr v"
  shows "fst (handleGrade e s) = s\<lparr>status := Success, errorMessage := None, result := nullable v\<rparr>"
  using assms by (simp add: handleGrade_parts gradeExam_result gradeSettled_def)

text \<open>
  A refinement whose model call throws, or answers without text or with white space only,
  brings the session to \<open>Success\<close> and changes nothing else.
\<close>

lemma handleImproveInstructions_no_rule:
  assumes "feedback \<noteq> []"
    and "generateContent e (improveRequest (instructions s) feedback (language s)) = Inl m \<or>
         (\<exists>r. generateContent e (improveRequest (instructions s) feedback (language s)) = Inr r \<and>
            (responseText r = None \<or> (\<exists>t. responseText r = Some t \<and> list_all isWhiteSpace t)))"
  shows "fst (handleImproveInstructions e s feedback) = s\<lparr>status := Success\<rparr>"
  using assms
  by (auto simp: handleImproveInstructions_parts improve_result improveSettled_def truthy_def
        trim_blank)

section \<open>Composing the grading request\<close>

text \<open>
  Claim C3. For every grading request with at least one rubric file and at least one exam
  file, the composed payload is the instruction segment, then the rubric group, then the exam
  group. Each group is its page labels spliced with its image segments, label first, one
  label for each image; the image segments of the payload are the rubric images followed by
  the exam images, each group in the order of its input sequence.
\<close>

theorem request_order:
  assumes "ru \<noteq> []" and "ex \<noteq> []"
  shows "composeParts ex ru ins lang =
           Text (promptText ins lang) #
           splice (map (\<lambda>k. Text (rubricLabel k)) (pagesFrom 0 ru)) (imagesOf ru) @
           splice (map (\<lambda>k. Text (examLabel k)) (pagesFrom 0 ex)) (imagesOf ex) \<and>
         length (pagesFrom 0 ru) = length (imagesOf ru) \<and>
         length (pagesFrom 0 ex) = length (imagesOf ex) \<and>
         filter isImage (composeParts ex ru ins lang) = imagesOf ru @ imagesOf ex"
  by (simp add: composeParts_segments filter_isImage_segments length_pagesFrom
        flip: segments_splice)

text \<open>Witness for C3: one rubric page and two exam pages, as in the scenario.\<close>

theorem request_order_witness:
  "[page ''key1.png'' (Some ''S0VZ'')] \<noteq> [] \<and>
   [page ''exam1.png'' (Some ''RVhBTQ==''), page ''exam2.png'' (Some ''UEFHRTI='')] \<noteq> [] \<and>
   composeParts [page ''exam1.png'' (Some ''RVhBTQ==''), page ''exam2.png'' (Some ''UEFHRTI='')]
     [page ''key1.png'' (Some ''S0VZ'')] [] En =
     [Text (promptText [] En),
      Text (rubricLabel 0), InlineData (js ''image/png'') (js ''S0VZ''),
      Text (examLabel 0), InlineData (js ''image/png'') (js ''RVhBTQ==''),
      Text (examLabel 1), InlineData (js ''image/png'') (js ''UEFHRTI='')]"
  using request_order
    [of "[page ''key1.png'' (Some ''S0VZ'')]"
        "[page ''exam1.png'' (Some ''RVhBTQ==''), page ''exam2.png'' (Some ''UEFHRTI='')]"
        "[]" En]
  by (simp add: page_def imagesOf_def imageOf_def pagesFrom_def List.map_filter_def js_def)

text \<open>
  Claim C10. For every pair of input file sequences, the payload after the instruction
  segment is the concatenation, file by file, of what each file contributes at its position
  in its own group: nothing at all (neither label nor image) for a file whose payload is
  absent, and for a file with a payload the label of that position followed by the image.
  The page number in a label is the position of the file in the input sequence plus one, so
  a skipped file still counts and the page numbers of the labels may have gaps.
\<close>

theorem skips_files_without_payload:
  "composeParts ex ru ins lang =
     Text (promptText ins lang) #
     concat (map (pageSegments rubricLabel) (enumerate 0 ru)) @
     concat (map (pageSegments examLabel) (enumerate 0 ex)) \<and>
   (base64 f = None \<longrightarrow> pageSegments label (k, f) = []) \<and>
   (base64 f = Some d \<and> d \<noteq> [] \<longrightarrow>
      pageSegments label (k, f) = [Text (label k), InlineData (mimeType f) d]) \<and>
   rubricLabel k = js ''[Image: Rubric Page '' @ numberToString (k + 1) @ js '']'' \<and>
   examLabel k = js ''[Image: Student Exam Page '' @ numberToString (k + 1) @ js '']''"
  by (simp add: composeParts_segments pageSegments_def rubricLabel_def examLabel_def)

text \<open>
  Witness for C10: the second of three exam files has no payload; the labels are those of
  pages 1 and 3.
\<close>

theorem skips_files_without_payload_witness:
  "composeParts
     [page ''exam1.png'' (Some ''RVhBTQ==''), page ''exam2.png'' None,
      page ''exam3.png'' (Some ''UEFHRTM='')]
     [page ''key1.png'' (Some ''S0VZ'')] [] En =
     [Text (promptText [] En),
      Text (js ''[Image: Rubric Page 1]''), InlineData (js ''image/png'') (js ''S0VZ''),
      Text (js ''[Image: Student Exam Page 1]''), InlineData (js ''image/png'') (js ''RVhBTQ==''),
      Text (js ''[Image: Student Exam Page 3]''), InlineData (js ''image/png'') (js ''UEFHRTM='')]"
  using skips_files_without_payload
    [where ex = "[page ''exam1.png'' (Some ''RVhBTQ==''), page ''exam2.png'' None,
                  page ''exam3.png'' (Some ''UEFHRTM='')]"
       and ru = "[page ''key1.png'' (Some ''S0VZ'')]" and ins = "[]" and lang = En
       and f = "page ''exam2.png'' None" and label = examLabel and k = 1]
  by (simp add: page_def pageSegments_def rubricLabel_def examLabel_def numberToString_digit
        digit_def js_def)

text \<open>
  Claim C9. For every grading request whose language is the secondary one (\<open>zh\<close>), the
  payload starts with the instruction segment, and the instruction text contains the
  sentence that asks for all text fields in Simplified Chinese. Nothing else in the request
  depends on the language: the segments after the first, the model and the configuration
  (with the schema) are those of the same request in English.
\<close>

theorem language_directive_in_prompt:
  assumes "lang = Zh"
  shows "\<exists>rest.
           composeParts ex ru ins lang = Text (promptText ins lang) # rest \<and>
           composeParts ex ru ins En = Text (promptText ins En) # rest \<and>
           sublist
             (js ''IMPORTANT: Provide ALL text fields (summary, feedback, studentAnswer, correction, comments, rubricReference) in Simplified Chinese ('' @
              [0x7B80, 0x4F53, 0x4E2D, 0x6587] @ js '').'')
             (promptText ins lang) \<and>
           model (gradeRequest ex ru ins lang) = model (gradeRequest ex ru ins En) \<and>
           config (gradeRequest ex ru ins lang) = config (gradeRequest ex ru ins En)"
proof -
  have "sublist (langInstruction Zh) (promptText ins Zh)"
    unfolding sublist_def by (rule promptText_split)
  then have s: "sublist
             (js ''IMPORTANT: Provide ALL text fields (summary, feedback, studentAnswer, correction, comments, rubricReference) in Simplified Chinese ('' @
              [0x7B80, 0x4F53, 0x4E2D, 0x6587] @ js '').'')
             (promptText ins lang)"
    unfolding langInstruction_Zh assms .
  have m: "model (gradeRequest ex ru ins lang) = model (gradeRequest ex ru ins En)"
    and c: "config (gradeRequest ex ru ins lang) = config (gradeRequest ex ru ins En)"
    by (simp_all add: gradeRequest_def)
  show ?thesis
    using s m c composeParts_segments [of ex ru ins lang] composeParts_segments [of ex ru ins En]
    by blast
qed

text \<open>Witness for C9: a request in Chinese with one page in each group.\<close>

theorem language_directive_in_prompt_witness:
  "Zh = Zh \<and>
   (\<exists>rest.
      composeParts [page ''exam1.png'' (Some ''RVhBTQ=='')] [page ''key1.png'' (Some ''S0VZ'')]
        [] Zh = Text (promptText [] Zh) # rest) \<and>
   sublist
     (js ''IMPORTANT: Provide ALL text fields (summary, feedback, studentAnswer, correction, comments, rubricReference) in Simplified Chinese ('' @
      [0x7B80, 0x4F53, 0x4E2D, 0x6587] @ js '').'')
     (promptText [] Zh)"
  using language_directive_in_prompt
    [of Zh "[page ''exam1.png'' (Some ''RVhBTQ=='')]" "[page ''key1.png'' (Some ''S0VZ'')]" "[]"]
  by blast

section \<open>The grading round trip\<close>

text \<open>
  Claim C1. For every session in which the exam image group or the rubric image group is
  empty, \<open>handleGrade\<close> takes the early return of its guard. Before any \<open>await\<close> it
  records the message \<open>errorFiles\<close> of the session language, which is how the rejection
  is signalled; it sends no request to the model; and it leaves the status, the result, the
  instructions, the files and the language as they were.
\<close>

theorem grade_rejects_missing_images:
  assumes "examFiles s = [] \<or> rubricFiles s = []"
  shows "gradeBegin s = Inl (s\<lparr>errorMessage := Some (errorFiles (language s))\<rparr>) \<and>
         handleGrade e s = (s\<lparr>errorMessage := Some (errorFiles (language s))\<rparr>, [])"
  using assms by (auto simp: handleGrade_def gradeBegin_def)

text \<open>
  Witness for C1: the sample session without exam images, on a platform whose model would
  answer.
\<close>

theorem grade_rejects_missing_images_witness:
  "(examFiles (sampleSession\<lparr>examFiles := []\<rparr>) = [] \<or>
    rubricFiles (sampleSession\<lparr>examFiles := []\<rparr>) = []) \<and>
   handleGrade (sampleEnv (Inr (Some scenarioBody)) [(scenarioBody, scenarioResult)])
     (sampleSession\<lparr>examFiles := []\<rparr>) =
     (sampleSession\<lparr>examFiles := [], errorMessage := Some (errorFiles Zh)\<rparr>, [])"
  using grade_rejects_missing_images
    [of "sampleSession\<lparr>examFiles := []\<rparr>"
        "sampleEnv (Inr (Some scenarioBody)) [(scenarioBody, scenarioResult)]"]
  by (simp add: sampleSession_def)

text \<open>
  Claim C2, as stated, fails: the body \<open>{}\<close> has none of the required fields of
  \<open>gradingSchema\<close>, and \<open>gradeExam\<close> returns the empty object that \<open>JSON.parse\<close>
  makes of it.
\<close>

theorem unchecked_body_counterexample:
  "\<not> spec_conforms gradingSchema (JObject []) \<and>
   fst (gradeExam (sampleEnv (Inr (Some (js ''{}''))) [(js ''{}'', JObject [])])
          [page ''exam1.png'' (Some ''RVhBTQ=='')] [page ''key1.png'' (Some ''S0VZ'')] [] En) =
     Inr (JObject [])"
  by (simp add: gradingSchema_def gradeExam_result sampleEnv_def js_def)

text \<open>
  Claim C2, amended. \<open>gradeExam\<close> returns a value exactly when the model answered with a
  non-empty text that \<open>JSON.parse\<close> accepts, and the value is the one \<open>JSON.parse\<close>
  returned, whatever its shape. It fails with the \<open>SyntaxError\<close> of \<open>JSON.parse\<close>
  exactly when that text does not parse, with "No response text generated" exactly when the
  text is missing or empty, and with the provider's error exactly when the call throws.
  The schema is only sent to the provider, as \<open>responseSchema\<close> of the request.
\<close>

theorem grade_fails_only_on_unparsable:
  "(fst (gradeExam e ex ru ins lang) = Inr v \<longleftrightarrow>
      (\<exists>r body. generateContent e (gradeRequest ex ru ins lang) = Inr r \<and>
          responseText r = Some body \<and> body \<noteq> [] \<and> JSON_parse e body = Inr v)) \<and>
   (fst (gradeExam e ex ru ins lang) = Inl (SyntaxError m) \<longleftrightarrow>
      (\<exists>r body. generateContent e (gradeRequest ex ru ins lang) = Inr r \<and>
          responseText r = Some body \<and> body \<noteq> [] \<and> JSON_parse e body = Inl m)) \<and>
   (fst (gradeExam e ex ru ins lang) = Inl NoResponseText \<longleftrightarrow>
      (\<exists>r. generateContent e (gradeRequest ex ru ins lang) = Inr r \<and>
          (responseText r = None \<or> responseText r = Some []))) \<and>
   (fst (gradeExam e ex ru ins lang) = Inl (ProviderError p) \<longleftrightarrow>
      generateContent e (gradeRequest ex ru ins lang) = Inl p) \<and>
   map_option responseSchema (config (gradeRequest ex ru ins lang)) = Some gradingSchema"
  by (auto simp: gradeExam_result gradeRequest_def split: sum.splits option.splits if_splits)



section \<open>The refinement round trip\<close>



text \<open>
  Claim C8. For every response of the refinement call, the rule text returned is the
  response text trimmed (the empty string when the response has no text): the response text
  is the rule text between two runs of white space, and a non-empty rule text neither
  starts nor ends with white space. A response text of white space only gives the empty
  string, returned as a value and not thrown, and on the empty string the handler only
  sets the status back to \<open>Success\<close>: the instructions are not changed.
\<close>

theorem rule_text_is_trimmed:
  assumes "generateContent e (improveRequest cur fb lang) = Inr r"
  shows "fst (generateImprovedInstructions e cur fb lang) =
           Inr (case responseText r of None \<Rightarrow> [] | Some t \<Rightarrow> trim t) \<and>
         (\<exists>pre post. t = pre @ trim t @ post \<and>
            list_all isWhiteSpace pre \<and> list_all isWhiteSpace post) \<and>
         (trim t \<noteq> [] \<longrightarrow> \<not> isWhiteSpace (hd (trim t)) \<and> \<not> isWhiteSpace (last (trim t))) \<and>
         (list_all isWhiteSpace t \<longrightarrow>
            trim t = [] \<and> improveSettled s (Inr (trim t)) = s\<lparr>status := Success\<rparr>)"
proof -
  have "fst (generateImprovedInstructions e cur fb lang) =
           Inr (case responseText r of None \<Rightarrow> [] | Some t \<Rightarrow> trim t)"
    using assms by (simp add: improve_result)
  moreover have "\<exists>pre post. t = pre @ trim t @ post \<and>
            list_all isWhiteSpace pre \<and> list_all isWhiteSpace post"
    by (rule trim_decomp)
  moreover have "trim t \<noteq> [] \<longrightarrow> \<not> isWhiteSpace (hd (trim t)) \<and> \<not> isWhiteSpace (last (trim t))"
    using trim_hd trim_last by blast
  moreover have "list_all isWhiteSpace t \<longrightarrow>
            trim t = [] \<and> improveSettled s (Inr (trim t)) = s\<lparr>status := Success\<rparr>"
    by (simp add: trim_blank improveSettled_def truthy_def)
  ultimately show ?thesis by blast
qed

text \<open>Witness for C8: the model answers with white space only.\<close>

theorem rule_text_is_trimmed_witness:
  "generateContent (sampleEnv (Inr (Some blankText)) [])
     (improveRequest (instructions sampleSession) (js ''ignored spelling'') Zh) =
     Inr \<lparr>responseText = Some blankText\<rparr> \<and>
   list_all isWhiteSpace blankText \<and>
   fst (generateImprovedInstructions (sampleEnv (Inr (Some blankText)) [])
          (instructions sampleSession) (js ''ignored spelling'') Zh) = Inr [] \<and>
   improveSettled (sampleSession\<lparr>status := Improving\<rparr>) (Inr []) = sampleSession"
proof -
  let ?s = "sampleSession\<lparr>status := Improving\<rparr>"
  have g: "generateContent (sampleEnv (Inr (Some blankText)) [])
     (improveRequest (instructions sampleSession) (js ''ignored spelling'') Zh) =
     Inr \<lparr>responseText = Some blankText\<rparr>"
    by (simp add: sampleEnv_def)
  have w: "list_all isWhiteSpace blankText"
    by (simp add: isWhiteSpace_def blankText_def)
  have s: "?s\<lparr>status := Success\<rparr> = sampleSession"
    by (simp add: sampleSession_def)
  from rule_text_is_trimmed [OF g, of blankText ?s] w
  have "fst (generateImprovedInstructions (sampleEnv (Inr (Some blankText)) [])
          (instructions sampleSession) (js ''ignored spelling'') Zh) = Inr (trim blankText)"
    and "trim blankText = []"
    and "improveSettled ?s (Inr (trim blankText)) = ?s\<lparr>status := Success\<rparr>"
    by auto
  with g w s show ?thesis by simp
qed

text \<open>
  Claim C4. For every session in the state \<open>Improving\<close>, when the refinement call has
  thrown or has returned the empty string, the handler sets the status to \<open>Success\<close> and
  changes nothing else: the instructions and the previous result are the same.
\<close>

theorem refinement_failure_keeps_result:
  assumes "status s = Improving" and "r = Inl err \<or> r = Inr []"
  shows "improveSettled s r = s\<lparr>status := Success\<rparr> \<and>
         status (improveSettled s r) = Success \<and>
         instructions (improveSettled s r) = instructions s \<and>
         result (improveSettled s r) = result s"
  using assms by (auto simp: improveSettled_def truthy_def)

text \<open>
  Witness for C4: the sample session, whose refinement call returned the empty string, is
  again the session it was before the refinement began.
\<close>

theorem refinement_failure_keeps_result_witness:
  "status (sampleSession\<lparr>status := Improving\<rparr>) = Improving \<and>
   improveSettled (sampleSession\<lparr>status := Improving\<rparr>) (Inr []) = sampleSession \<and>
   result (improveSettled (sampleSession\<lparr>status := Improving\<rparr>) (Inr [])) =
     Some scenarioResult"
  using refinement_failure_keeps_result
    [of "sampleSession\<lparr>status := Improving\<rparr>" "Inr []" "ProviderError None"]
  by (simp add: sampleSession_def)

text \<open>
  Claim C5. For every refinement (non-empty feedback) whose call returns a non-empty rule
  text \<open>Y\<close>, the instructions afterwards are the previous instructions, then a blank line
  if there were any, then the tag \<open>[Updated Rule]: \<close>, then \<open>Y\<close>; the previous result is
  discarded and the status is \<open>Idle\<close>. Nothing else in the session changes.
\<close>

theorem refinement_appends_rule:
  assumes "feedback \<noteq> []"
    and "fst (generateImprovedInstructions e (instructions s) feedback (language s)) = Inr Y"
    and "Y \<noteq> []"
  shows "fst (handleImproveInstructions e s feedback) =
           s\<lparr>instructions :=
                instructions s @ (if instructions s = [] then [] else nl @ nl) @
                js ''[Updated Rule]: '' @ Y,
              result := None, status := Idle\<rparr>"
  using assms
  by (simp add: handleImproveInstructions_parts improveSettled_def truthy_def)

text \<open>
  Witness for C5: the model answers the feedback of the scenario with a rule, surrounded by
  white space.
\<close>

theorem refinement_appends_rule_witness:
  "js ''ignored spelling'' \<noteq> [] \<and>
   fst (generateImprovedInstructions
          (sampleEnv (Inr (Some (js '' Deduct 1 point per typo.'' @ nl))) [])
          (instructions sampleSession) (js ''ignored spelling'') (language sampleSession)) =
     Inr (js ''Deduct 1 point per typo.'') \<and>
   js ''Deduct 1 point per typo.'' \<noteq> [] \<and>
   fst (handleImproveInstructions
          (sampleEnv (Inr (Some (js '' Deduct 1 point per typo.'' @ nl))) [])
          sampleSession (js ''ignored spelling'')) =
     sampleSession
       \<lparr>instructions :=
          js ''Be strict on grammar.'' @ nl @ nl @ js ''[Updated Rule]: '' @
          js ''Deduct 1 point per typo.'',
        result := None, status := Idle\<rparr>"
proof -
  have t: "trim (js '' Deduct 1 point per typo.'' @ nl) = js ''Deduct 1 point per typo.''"
    by code_simp
  have f: "js ''ignored spelling'' \<noteq> []" and y: "js ''Deduct 1 point per typo.'' \<noteq> []"
    by (simp_all add: js_def)
  have g: "fst (generateImprovedInstructions
          (sampleEnv (Inr (Some (js '' Deduct 1 point per typo.'' @ nl))) [])
          (instructions sampleSession) (js ''ignored spelling'') (language sampleSession)) =
     Inr (js ''Deduct 1 point per typo.'')"
    by (simp add: improve_result sampleEnv_def t)
  have i: "instructions sampleSession = js ''Be strict on grammar.''"
    by (simp add: sampleSession_def)
  have n: "js ''Be strict on grammar.'' \<noteq> []"
    by (simp add: js_def)
  show ?thesis
    using refinement_appends_rule [OF f g y] f g y i n by simp
qed

end
